theory Spec2Isabelle
  imports Main "HOL-Library.Sublist"
begin

section \<open>Data model\<close>

text \<open>
  The models of \<^verbatim>\<open>models.py\<close> (not part of the sources at hand) are records with the
  fields that \<^verbatim>\<open>main.py\<close> reads and writes. The field \<^verbatim>\<open>id\<close> of a note is called
  \<open>note_id\<close> and the field \<^verbatim>\<open>text\<close> is called \<open>note_text\<close>, since \<open>id\<close> and \<open>text\<close>
  are taken in HOL.
\<close>

record Note =
  note_id :: string
  note_text :: string

record CreateNoteRequest =
  payload_text :: string

record SummaryRequest =
  userQuery :: string
  notesId :: string
  modelName :: string

text \<open>
  The process state: the module global \<^verbatim>\<open>NOTES\<close> of \<^verbatim>\<open>main.py\<close>, and what
  \<^verbatim>\<open>list_notes\<close> has printed so far (one entry for each call, the list it printed).
\<close>

record server =
  NOTES :: "Note list"
  stdout :: "Note list list"

text \<open>
  Modelled from the spec: \<^verbatim>\<open>storage.NOTES\<close>, the value the global is imported with, is
  missing from the sources; the store is "created empty at process start".
\<close>

definition initial :: server where
  "initial = \<lparr>NOTES = [], stdout = []\<rparr>"

subsection \<open>Responses\<close>

datatype content =
    NoContent
  | ErrorBody string
  | DetailBody string
  | SummaryBody string
  | NoteBody Note
  | NotesBody "Note list"
  | TextBody string

record response =
  status_code :: nat
  content :: content

text \<open>What a handler raises: FastAPI's \<^verbatim>\<open>HTTPException(status_code, detail)\<close>.\<close>

datatype http_exception = HTTPException nat string

text \<open>An instance of Python's \<^verbatim>\<open>Exception\<close>, as caught by \<^verbatim>\<open>except Exception\<close>.\<close>

datatype exn = Exception string

text \<open>
  What \<^verbatim>\<open>delete_note\<close> and \<^verbatim>\<open>summarize_note\<close> return: a \<^verbatim>\<open>JSONResponse\<close> with its own
  status, or a \<^verbatim>\<open>SummaryResponse\<close> model that the route serialises with its default status.
\<close>

datatype handler_result =
    JSONResponse nat content
  | SummaryResponse string

subsection \<open>The language-model adapters\<close>

text \<open>
  \<^verbatim>\<open>llm_clients.summarize_with_openai\<close> and \<^verbatim>\<open>summarize_with_gemini\<close> call external
  services; they are parameters of the model. A call on the note's text and the query
  raises (\<open>Inl\<close>) or returns \<^verbatim>\<open>None\<close> or a string (\<open>Inr\<close>).
\<close>

record adapters =
  summarize_with_openai :: "string \<Rightarrow> string \<Rightarrow> exn + string option"
  summarize_with_gemini :: "string \<Rightarrow> string \<Rightarrow> exn + string option"

section \<open>Python's \<^verbatim>\<open>str\<close> on integers\<close>

definition digit_char :: "nat \<Rightarrow> char" where
  "digit_char d = ''0123456789'' ! d"

fun str_nat :: "nat \<Rightarrow> string" where
  "str_nat n = (if n < 10 then [digit_char n] else str_nat (n div 10) @ [digit_char (n mod 10)])"

declare str_nat.simps [simp del]

text \<open>
  \<open>str now\<close> stands for \<^verbatim>\<open>str(int(time.time() * 1000))\<close>, where \<open>now\<close> is the integer
  \<^verbatim>\<open>int(time.time() * 1000)\<close>: the clock reading in milliseconds, given to each handler
  that reads the clock. A negative integer prints with a minus sign.
\<close>

definition str :: "int \<Rightarrow> string" where
  "str i = (if i < 0 then CHR ''-'' # str_nat (nat (- i)) else str_nat (nat i))"

text \<open>Python's \<^verbatim>\<open>s.isdigit()\<close> on ASCII text: not empty, and decimal digits only.\<close>

definition isdigit :: "string \<Rightarrow> bool" where
  "isdigit s = (s \<noteq> [] \<and> list_all (\<lambda>c. c \<in> set ''0123456789'') s)"

text \<open>Python's truth value of a string, and of \<^verbatim>\<open>None\<close> or a string.\<close>

definition falsy :: "string \<Rightarrow> bool" where
  "falsy s = (s = [])"

fun or_else :: "string option \<Rightarrow> string \<Rightarrow> string" where
  "or_else None d = d"
| "or_else (Some r) d = (if falsy r then d else r)"

section \<open>The handlers of \<^verbatim>\<open>main.py\<close>\<close>

definition root :: "string" where
  "root = ''server is up''"

definition list_notes :: "server \<Rightarrow> Note list \<times> server" where
  "list_notes s = (NOTES s, s\<lparr>stdout := stdout s @ [NOTES s]\<rparr>)"

definition create_note :: "int \<Rightarrow> CreateNoteRequest \<Rightarrow> server \<Rightarrow> Note \<times> server" where
  "create_note now payload s =
     (let note = \<lparr>note_id = str now, note_text = payload_text payload\<rparr>
      in (note, s\<lparr>NOTES := NOTES s @ [note]\<rparr>))"

text \<open>
  \<^verbatim>\<open>delete_note\<close> rebinds the global to the filtered list before it compares the
  lengths, so the state it leaves is the filtered one on both paths.
\<close>

definition delete_note :: "string \<Rightarrow> server \<Rightarrow> (http_exception + handler_result) \<times> server" where
  "delete_note nid s =
     (let before_count = length (NOTES s);
          s' = s\<lparr>NOTES := [n \<leftarrow> NOTES s. note_id n \<noteq> nid]\<rparr>
      in if length (NOTES s') = before_count
         then (Inl (HTTPException 404 ''Note not found''), s')
         else (Inr (JSONResponse 204 NoContent), s'))"

text \<open>\<^verbatim>\<open>next((n for n in NOTES if n.id == notes_id), None)\<close>: the first match.\<close>

definition find_note :: "string \<Rightarrow> Note list \<Rightarrow> Note option" where
  "find_note notes_id notes = find (\<lambda>n. note_id n = notes_id) notes"

text \<open>
  The body of the \<^verbatim>\<open>try\<close> block of \<^verbatim>\<open>summarize_note\<close>; \<open>Inl\<close> is an exception raised in
  it. A note object is true in Python, so \<^verbatim>\<open>not note\<close> holds for \<^verbatim>\<open>None\<close> only.
\<close>

definition summarize_body ::
  "adapters \<Rightarrow> int \<Rightarrow> SummaryRequest \<Rightarrow> server \<Rightarrow> (exn + handler_result) \<times> server" where
  "summarize_body llm now payload s =
     (let user_query = userQuery payload;
          notes_id = notesId payload;
          model_name = modelName payload
      in if falsy user_query \<or> falsy notes_id
         then (Inr (JSONResponse 400 (ErrorBody ''userQuery and notesId are required'')), s)
         else
           (case find_note notes_id (NOTES s) of
              None \<Rightarrow> (Inr (JSONResponse 404 (ErrorBody ''Note not found'')), s)
            | Some note \<Rightarrow>
                (case (if model_name = ''openai''
                       then Some (summarize_with_openai llm (note_text note) user_query)
                       else if model_name = ''gemini''
                       then Some (summarize_with_gemini llm (note_text note) user_query)
                       else None) of
                   None \<Rightarrow>
                     (Inr (JSONResponse 400
                        (ErrorBody ''Invalid modelName. Use 'openai' or 'gemini'.'')), s)
                 | Some (Inl e) \<Rightarrow> (Inl e, s)
                 | Some (Inr llm_res) \<Rightarrow>
                     (let summary = or_else llm_res ''No summary generated'';
                          newNote = \<lparr>note_id = str now, note_text = summary\<rparr>
                      in (Inr (SummaryResponse summary), s\<lparr>NOTES := NOTES s @ [newNote]\<rparr>)))))"

definition summarize_note ::
  "adapters \<Rightarrow> int \<Rightarrow> SummaryRequest \<Rightarrow> server \<Rightarrow> handler_result \<times> server" where
  "summarize_note llm now payload s =
     (case summarize_body llm now payload s of
        (Inl e, s') \<Rightarrow> (JSONResponse 500 (ErrorBody ''Failed to summarize note''), s')
      | (Inr r, s') \<Rightarrow> (r, s'))"

section \<open>The routes\<close>

text \<open>
  What the FastAPI decorators add to a handler: the status of the route (200 unless the
  decorator gives one) for a returned model, a returned \<^verbatim>\<open>JSONResponse\<close> as it is, and a
  raised \<^verbatim>\<open>HTTPException\<close> as its status with the body \<^verbatim>\<open>{"detail": ...}\<close>.
\<close>

fun respond :: "handler_result \<Rightarrow> response" where
  "respond (JSONResponse c b) = \<lparr>status_code = c, content = b\<rparr>"
| "respond (SummaryResponse summary) = \<lparr>status_code = 200, content = SummaryBody summary\<rparr>"

fun http_error :: "http_exception \<Rightarrow> response" where
  "http_error (HTTPException c d) = \<lparr>status_code = c, content = DetailBody d\<rparr>"

datatype request =
    GET_root
  | GET_notes
  | POST_notes int CreateNoteRequest
  | DELETE_notes string
  | POST_summary int SummaryRequest

fun handle :: "adapters \<Rightarrow> request \<Rightarrow> server \<Rightarrow> response \<times> server" where
  "handle llm GET_root s = (\<lparr>status_code = 200, content = TextBody root\<rparr>, s)"
| "handle llm GET_notes s =
     (case list_notes s of (notes, s') \<Rightarrow> (\<lparr>status_code = 200, content = NotesBody notes\<rparr>, s'))"
| "handle llm (POST_notes now payload) s =
     (case create_note now payload s of
        (note, s') \<Rightarrow> (\<lparr>status_code = 201, content = NoteBody note\<rparr>, s'))"
| "handle llm (DELETE_notes nid) s =
     (case delete_note nid s of
        (Inl e, s') \<Rightarrow> (http_error e, s')
      | (Inr r, s') \<Rightarrow> (respond r, s'))"
| "handle llm (POST_summary now payload) s =
     (case summarize_note llm now payload s of (r, s') \<Rightarrow> (respond r, s'))"

text \<open>A run of the server: the requests in the order they are handled.\<close>

fun serve :: "adapters \<Rightarrow> request list \<Rightarrow> server \<Rightarrow> server" where
  "serve llm [] s = s"
| "serve llm (r # rs) s = serve llm rs (snd (handle llm r s))"

text \<open>The clock reading of a request that has one is not before the epoch.\<close>

fun clock_ok :: "request \<Rightarrow> bool" where
  "clock_ok (POST_notes now payload) = (0 \<le> now)"
| "clock_ok (POST_summary now payload) = (0 \<le> now)"
| "clock_ok r = True"

text \<open>The invariant of the store: the id of every note is an all-digit string.\<close>

definition digit_ids :: "server \<Rightarrow> bool" where
  "digit_ids s = list_all (\<lambda>n. isdigit (note_id n)) (NOTES s)"

section \<open>Concrete inputs\<close>

text \<open>
  Adapters for the examples: the first provider is down and raises, the second returns
  an empty summary.
\<close>

definition demo_llm :: adapters where
  "demo_llm =
     \<lparr>summarize_with_openai = (\<lambda>t q. Inl (Exception ''provider down'')),
      summarize_with_gemini = (\<lambda>t q. Inr (Some []))\<rparr>"

text \<open>Two notes created within the same millisecond, from the empty store.\<close>

definition collided :: server where
  "collided =
     serve demo_llm
       [POST_notes 1700000000000 \<lparr>payload_text = ''a''\<rparr>,
        POST_notes 1700000000000 \<lparr>payload_text = ''b''\<rparr>] initial"

text \<open>One note, created from the empty store.\<close>

definition one_note :: server where
  "one_note = serve demo_llm [POST_notes 1700000000000 \<lparr>payload_text = ''hello''\<rparr>] initial"

text \<open>Four notes, the two in the middle created within the same millisecond.\<close>

definition mixed :: server where
  "mixed =
     serve demo_llm
       [POST_notes 1699999999999 \<lparr>payload_text = ''first''\<rparr>,
        POST_notes 1700000000000 \<lparr>payload_text = ''a''\<rparr>,
        POST_notes 1700000000000 \<lparr>payload_text = ''b''\<rparr>,
        POST_notes 1700000000007 \<lparr>payload_text = ''last''\<rparr>] initial"

text \<open>A run with every kind of request: the summary succeeds with the fallback text.\<close>

definition demo_run :: "request list" where
  "demo_run =
     [POST_notes 1700000000000 \<lparr>payload_text = ''hello''\<rparr>,
      POST_summary 1700000000005
        \<lparr>userQuery = ''shorter'', notesId = ''1700000000000'', modelName = ''gemini''\<rparr>,
      GET_notes,
      DELETE_notes ''1700000000000'',
      GET_root]"

section \<open>Decimal strings\<close>

lemma digit_char_digit: "d < 10 \<Longrightarrow> digit_char d \<in> set ''0123456789''"
  unfolding digit_char_def by (rule nth_mem) simp

lemma str_nat_not_Nil: "str_nat n \<noteq> []"
  by (subst str_nat.simps) simp

lemma str_nat_digits: "list_all (\<lambda>c. c \<in> set ''0123456789'') (str_nat n)"
proof (induction n rule: str_nat.induct)
  case (1 n)
  show ?case
  proof (cases "n < 10")
    case True
    then show ?thesis
      using digit_char_digit [of n] by (subst str_nat.simps) simp
  next
    case False
    have "n mod 10 < 10" by simp
    then have "digit_char (n mod 10) \<in> set ''0123456789''" by (rule digit_char_digit)
    with False "1.IH" show ?thesis
      by (subst str_nat.simps) simp
  qed
qed

lemma str_not_Nil: "str i \<noteq> []"
  by (simp add: str_def str_nat_not_Nil)

lemma isdigit_str: "0 \<le> i \<Longrightarrow> isdigit (str i)"
  unfolding str_def isdigit_def using str_nat_not_Nil [of "nat i"] str_nat_digits [of "nat i"]
  by simp

lemma not_isdigit_str_neg: "i < 0 \<Longrightarrow> \<not> isdigit (str i)"
  by (simp add: str_def isdigit_def)

lemma str_example: "str 1700000000000 = ''1700000000000''"
  by (simp add: str_def str_nat.simps digit_char_def)

section \<open>Lookup and filtering\<close>

lemma find_note_None: "find_note nid ns = None \<longleftrightarrow> nid \<notin> note_id ` set ns"
  by (auto simp: find_note_def find_None_iff)

lemma find_note_Some: "find_note nid ns = Some note \<Longrightarrow> note \<in> set ns \<and> note_id note = nid"
  by (auto simp: find_note_def find_Some_iff)

lemma find_note_present: "nid \<in> note_id ` set ns \<Longrightarrow> \<exists>note. find_note nid ns = Some note"
  using find_note_None [of nid ns] by (cases "find_note nid ns") auto

lemma length_filter_split: "length [x \<leftarrow> xs. \<not> P x] + length [x \<leftarrow> xs. P x] = length xs"
  by (induction xs) auto

lemma filter_length_eq: "length (filter P xs) = length xs \<longleftrightarrow> (\<forall>x\<in>set xs. P x)"
proof
  assume eq: "length (filter P xs) = length xs"
  show "\<forall>x\<in>set xs. P x"
  proof
    fix x assume "x \<in> set xs"
    then show "P x" using eq length_filter_less [of x xs P] by auto
  qed
next
  assume "\<forall>x\<in>set xs. P x"
  then have "filter P xs = xs" by (simp add: filter_id_conv)
  then show "length (filter P xs) = length xs" by simp
qed

lemma NOTES_delete_note: "NOTES (snd (delete_note nid s)) = [n \<leftarrow> NOTES s. note_id n \<noteq> nid]"
  by (simp add: delete_note_def Let_def)

lemma collided_eq:
  "collided =
     \<lparr>NOTES = [\<lparr>note_id = ''1700000000000'', note_text = ''a''\<rparr>,
               \<lparr>note_id = ''1700000000000'', note_text = ''b''\<rparr>],
      stdout = []\<rparr>"
  by (simp add: collided_def initial_def create_note_def Let_def str_example)

lemma one_note_eq:
  "one_note = \<lparr>NOTES = [\<lparr>note_id = ''1700000000000'', note_text = ''hello''\<rparr>], stdout = []\<rparr>"
  by (simp add: one_note_def initial_def create_note_def Let_def str_example)

lemma mixed_eq:
  "mixed =
     \<lparr>NOTES = [\<lparr>note_id = ''1699999999999'', note_text = ''first''\<rparr>,
               \<lparr>note_id = ''1700000000000'', note_text = ''a''\<rparr>,
               \<lparr>note_id = ''1700000000000'', note_text = ''b''\<rparr>,
               \<lparr>note_id = ''1700000000007'', note_text = ''last''\<rparr>],
      stdout = []\<rparr>"
  by (simp add: mixed_def initial_def create_note_def Let_def str_def str_nat.simps digit_char_def)

section \<open>Deleting a note\<close>

lemma delete_note_eq:
  "delete_note nid s =
     ((if nid \<in> note_id ` set (NOTES s) then Inr (JSONResponse 204 NoContent)
       else Inl (HTTPException 404 ''Note not found'')),
      s\<lparr>NOTES := [n \<leftarrow> NOTES s. note_id n \<noteq> nid]\<rparr>)"
  by (auto simp: delete_note_def Let_def filter_length_eq)

lemma handle_DELETE:
  "handle llm (DELETE_notes nid) s =
     ((if nid \<in> note_id ` set (NOTES s) then \<lparr>status_code = 204, content = NoContent\<rparr>
       else \<lparr>status_code = 404, content = DetailBody ''Note not found''\<rparr>),
      s\<lparr>NOTES := [n \<leftarrow> NOTES s. note_id n \<noteq> nid]\<rparr>)"
  by (simp add: delete_note_eq)

lemma count_list_filter:
  "count_list (filter P xs) x = (if P x then count_list xs x else 0)"
  by (induction xs) auto

text \<open>
  Claim C1, as amended. For every store that holds at least one note whose id is the
  given id, \<^verbatim>\<open>DELETE /api/notes/{id}\<close> answers 204 with no content and removes every note
  with that id: none is left, and the store is shorter by the number of notes that had the
  id, which is at least one (and exactly one when a single note has the id).
\<close>

theorem delete_note_existing:
  assumes "nid \<in> note_id ` set (NOTES s)"
  shows "fst (handle llm (DELETE_notes nid) s) = \<lparr>status_code = 204, content = NoContent\<rparr>
    \<and> nid \<notin> note_id ` set (NOTES (snd (handle llm (DELETE_notes nid) s)))
    \<and> length (NOTES (snd (handle llm (DELETE_notes nid) s)))
        + length [n \<leftarrow> NOTES s. note_id n = nid] = length (NOTES s)
    \<and> 0 < length [n \<leftarrow> NOTES s. note_id n = nid]"
proof -
  have "0 < length [n \<leftarrow> NOTES s. note_id n = nid]"
    using assms by (auto simp: filter_empty_conv)
  moreover have "length [n \<leftarrow> NOTES s. note_id n \<noteq> nid] + length [n \<leftarrow> NOTES s. note_id n = nid]
      = length (NOTES s)"
    by (rule length_filter_split)
  ultimately show ?thesis using assms by (auto simp: handle_DELETE simp del: handle.simps)
qed

text \<open>The only note of a store is deleted by its id.\<close>

theorem delete_note_existing_witness:
  "''1700000000000'' \<in> note_id ` set (NOTES one_note)
    \<and> fst (handle demo_llm (DELETE_notes ''1700000000000'') one_note)
        = \<lparr>status_code = 204, content = NoContent\<rparr>
    \<and> NOTES (snd (handle demo_llm (DELETE_notes ''1700000000000'') one_note)) = []"
proof -
  have h: "''1700000000000'' \<in> note_id ` set (NOTES one_note)"
    by (simp add: one_note_eq)
  show ?thesis
    using h delete_note_existing [OF h, of demo_llm] by (simp add: one_note_eq)
qed

text \<open>
  Claim C1 as stated fails: after two creations within one millisecond the store holds
  two notes with one id, and a single delete of that id answers 204 and removes both, so
  the store is not shorter by exactly one.
\<close>

theorem delete_note_exactly_one_counterexample:
  "''1700000000000'' \<in> note_id ` set (NOTES collided)
    \<and> status_code (fst (handle demo_llm (DELETE_notes ''1700000000000'') collided)) = 204
    \<and> length (NOTES collided) = 2
    \<and> length (NOTES (snd (handle demo_llm (DELETE_notes ''1700000000000'') collided))) = 0
    \<and> length (NOTES (snd (handle demo_llm (DELETE_notes ''1700000000000'') collided)))
        \<noteq> length (NOTES collided) - 1"
  by (simp add: collided_eq delete_note_def Let_def)

text \<open>
  Claim C6. For every store that holds no note whose id is the given id,
  \<^verbatim>\<open>DELETE /api/notes/{id}\<close> leaves the whole state as it was (the same notes in the same
  order) and answers 404 with the error body \<^verbatim>\<open>{"detail": "Note not found"}\<close>.
\<close>

theorem delete_note_missing:
  assumes "nid \<notin> note_id ` set (NOTES s)"
  shows "handle llm (DELETE_notes nid) s
     = (\<lparr>status_code = 404, content = DetailBody ''Note not found''\<rparr>, s)"
proof -
  have "[n \<leftarrow> NOTES s. note_id n \<noteq> nid] = NOTES s"
    using assms by (auto simp: filter_id_conv)
  then show ?thesis using assms by (simp add: handle_DELETE del: handle.simps)
qed

text \<open>Deleting an id that the store does not hold.\<close>

theorem delete_note_missing_witness:
  "''42'' \<notin> note_id ` set (NOTES one_note)
    \<and> handle demo_llm (DELETE_notes ''42'') one_note
        = (\<lparr>status_code = 404, content = DetailBody ''Note not found''\<rparr>, one_note)"
proof -
  have h: "''42'' \<notin> note_id ` set (NOTES one_note)"
    by (simp add: one_note_eq)
  show ?thesis
    using h delete_note_missing [OF h, of demo_llm] by simp
qed

text \<open>
  Claim C9. Whenever \<^verbatim>\<open>DELETE /api/notes/{id}\<close> answers 204, no note with the given id is
  left in the store: every note with that id is removed by the one call. The notes that
  are left are the notes with another id, each as often as before and in the order they
  had: the new store is a subsequence of the old one.
\<close>

theorem delete_note_204_none_left:
  assumes "status_code (fst (handle llm (DELETE_notes nid) s)) = 204"
  shows "(\<forall>n\<in>set (NOTES (snd (handle llm (DELETE_notes nid) s))). note_id n \<noteq> nid)
    \<and> subseq (NOTES (snd (handle llm (DELETE_notes nid) s))) (NOTES s)
    \<and> (\<forall>n. note_id n \<noteq> nid \<longrightarrow>
          count_list (NOTES (snd (handle llm (DELETE_notes nid) s))) n = count_list (NOTES s) n)
    \<and> NOTES (snd (handle llm (DELETE_notes nid) s)) = [n \<leftarrow> NOTES s. note_id n \<noteq> nid]"
  by (simp add: handle_DELETE count_list_filter del: handle.simps)

text \<open>Of four notes the two in the middle share an id; one delete removes the two.\<close>

theorem delete_note_204_none_left_witness:
  "status_code (fst (handle demo_llm (DELETE_notes ''1700000000000'') mixed)) = 204
    \<and> NOTES (snd (handle demo_llm (DELETE_notes ''1700000000000'') mixed))
        = [\<lparr>note_id = ''1699999999999'', note_text = ''first''\<rparr>,
           \<lparr>note_id = ''1700000000007'', note_text = ''last''\<rparr>]"
proof -
  have h: "status_code (fst (handle demo_llm (DELETE_notes ''1700000000000'') mixed)) = 204"
    by (simp add: mixed_eq handle_DELETE del: handle.simps)
  show ?thesis
    using h delete_note_204_none_left [OF h] by (simp add: mixed_eq)
qed

section \<open>Summarising a note\<close>

lemma handle_POST_summary:
  "handle llm (POST_summary now p) s =
     (case summarize_body llm now p s of
        (Inl e, s') \<Rightarrow> (\<lparr>status_code = 500, content = ErrorBody ''Failed to summarize note''\<rparr>, s')
      | (Inr r, s') \<Rightarrow> (respond r, s'))"
  by (simp add: summarize_note_def split: prod.splits sum.splits)

text \<open>
  Claim C2, as amended. For every request to \<^verbatim>\<open>POST /api/notes/summary\<close> whose
  \<open>modelName\<close> is neither \<^verbatim>\<open>"openai"\<close> nor \<^verbatim>\<open>"gemini"\<close>, whatever the adapters, the clock
  and the store, the state is left unchanged, and the response is: 400 (fields required)
  when \<open>userQuery\<close> or \<open>notesId\<close> is empty; otherwise 404 (note not found) when no note of
  the store has the id \<open>notesId\<close>; otherwise 400 (invalid model name).
\<close>

theorem summarize_invalid_model:
  assumes "modelName p \<noteq> ''openai''" and "modelName p \<noteq> ''gemini''"
  shows "handle llm (POST_summary now p) s
    = ((if userQuery p = [] \<or> notesId p = []
        then \<lparr>status_code = 400, content = ErrorBody ''userQuery and notesId are required''\<rparr>
        else if notesId p \<notin> note_id ` set (NOTES s)
        then \<lparr>status_code = 404, content = ErrorBody ''Note not found''\<rparr>
        else \<lparr>status_code = 400,
              content = ErrorBody ''Invalid modelName. Use 'openai' or 'gemini'.''\<rparr>), s)"
proof (cases "find_note (notesId p) (NOTES s)")
  case None
  then have "notesId p \<notin> note_id ` set (NOTES s)" by (simp add: find_note_None)
  with None show ?thesis
    by (simp add: handle_POST_summary summarize_body_def Let_def falsy_def del: handle.simps)
next
  case (Some found)
  then have "notesId p \<in> note_id ` set (NOTES s)"
    using find_note_None [of "notesId p" "NOTES s"] by simp
  with Some assms show ?thesis
    by (simp add: handle_POST_summary summarize_body_def Let_def falsy_def del: handle.simps)
qed

text \<open>An unknown model name with a note that exists: 400, and the store as it was.\<close>

theorem summarize_invalid_model_witness:
  "''xyz'' \<noteq> ''openai'' \<and> ''xyz'' \<noteq> ''gemini''
   \<and> handle demo_llm
       (POST_summary 1700000000005
          \<lparr>userQuery = ''shorter'', notesId = ''1700000000000'', modelName = ''xyz''\<rparr>)
       one_note
     = (\<lparr>status_code = 400,
          content = ErrorBody ''Invalid modelName. Use 'openai' or 'gemini'.''\<rparr>, one_note)"
  using summarize_invalid_model
    [where p = "\<lparr>userQuery = ''shorter'', notesId = ''1700000000000'', modelName = ''xyz''\<rparr>"
       and llm = demo_llm and now = 1700000000005 and s = one_note]
  by (simp add: one_note_eq)

text \<open>
  Claim C2 as stated fails: with the model name \<^verbatim>\<open>"xyz"\<close>, a query and an id that no
  note has, the lookup comes first and the response is 404, not 400.
\<close>

theorem summarize_invalid_model_counterexample:
  "modelName \<lparr>userQuery = ''shorter'', notesId = ''42'', modelName = ''xyz''\<rparr> = ''xyz''
   \<and> handle demo_llm
       (POST_summary 1700000000005
          \<lparr>userQuery = ''shorter'', notesId = ''42'', modelName = ''xyz''\<rparr>)
       one_note
     = (\<lparr>status_code = 404, content = ErrorBody ''Note not found''\<rparr>, one_note)
   \<and> status_code (fst (handle demo_llm
       (POST_summary 1700000000005
          \<lparr>userQuery = ''shorter'', notesId = ''42'', modelName = ''xyz''\<rparr>)
       one_note)) \<noteq> 400"
  by (simp add: one_note_eq summarize_note_def summarize_body_def Let_def falsy_def find_note_def)

text \<open>
  Claim C3, as amended. For every request to \<^verbatim>\<open>POST /api/notes/summary\<close> with a non-empty
  \<open>userQuery\<close> and a non-empty \<open>notesId\<close> that is the id of no note of the store, the
  response is 404 with the body \<^verbatim>\<open>{"error": "Note not found"}\<close> and the state is left
  unchanged, whatever \<open>modelName\<close> is: the lookup comes before the check of the model name.
\<close>

theorem summarize_unknown_note:
  assumes "userQuery p \<noteq> []" and "notesId p \<noteq> []"
    and "notesId p \<notin> note_id ` set (NOTES s)"
  shows "handle llm (POST_summary now p) s
    = (\<lparr>status_code = 404, content = ErrorBody ''Note not found''\<rparr>, s)"
proof -
  have "find_note (notesId p) (NOTES s) = None"
    using assms(3) by (simp add: find_note_None)
  with assms(1,2) show ?thesis
    by (simp add: handle_POST_summary summarize_body_def Let_def falsy_def del: handle.simps)
qed

text \<open>An id that no note has, with a model name that is not valid either.\<close>

theorem summarize_unknown_note_witness:
  "''shorter'' \<noteq> [] \<and> ''42'' \<noteq> [] \<and> ''42'' \<notin> note_id ` set (NOTES one_note)
   \<and> handle demo_llm
       (POST_summary 1700000000005
          \<lparr>userQuery = ''shorter'', notesId = ''42'', modelName = ''xyz''\<rparr>)
       one_note
     = (\<lparr>status_code = 404, content = ErrorBody ''Note not found''\<rparr>, one_note)"
  using summarize_unknown_note
    [where p = "\<lparr>userQuery = ''shorter'', notesId = ''42'', modelName = ''xyz''\<rparr>"
       and s = one_note and llm = demo_llm and now = 1700000000005]
  by (simp add: one_note_eq)

text \<open>
  Claim C3 as stated fails: with an id that no note has and an empty \<open>userQuery\<close>, the
  check of the required fields comes first and the response is 400, not 404.
\<close>

theorem summarize_unknown_note_counterexample:
  "notesId \<lparr>userQuery = [], notesId = ''42'', modelName = ''openai''\<rparr>
      \<notin> note_id ` set (NOTES one_note)
   \<and> handle demo_llm
       (POST_summary 1700000000005 \<lparr>userQuery = [], notesId = ''42'', modelName = ''openai''\<rparr>)
       one_note
     = (\<lparr>status_code = 400, content = ErrorBody ''userQuery and notesId are required''\<rparr>,
        one_note)"
  by (simp add: one_note_eq summarize_note_def summarize_body_def Let_def falsy_def find_note_def)

section \<open>Ids of the notes of a run\<close>

lemma handle_GET_notes:
  "handle llm GET_notes s
     = (\<lparr>status_code = 200, content = NotesBody (NOTES s)\<rparr>, s\<lparr>stdout := stdout s @ [NOTES s]\<rparr>)"
  by (simp add: list_notes_def)

lemma handle_POST_notes:
  "handle llm (POST_notes now payload) s
     = (\<lparr>status_code = 201,
         content = NoteBody \<lparr>note_id = str now, note_text = payload_text payload\<rparr>\<rparr>,
        s\<lparr>NOTES := NOTES s @ [\<lparr>note_id = str now, note_text = payload_text payload\<rparr>]\<rparr>)"
  by (simp add: create_note_def Let_def)

text \<open>A note of the store after a request was there before, or has the id of the clock reading.\<close>

lemma handle_new_ids:
  assumes "n \<in> set (NOTES (snd (handle llm r s)))"
  shows "n \<in> set (NOTES s)
    \<or> (\<exists>now p. r = POST_notes now p \<and> note_id n = str now)
    \<or> (\<exists>now p. r = POST_summary now p \<and> note_id n = str now)"
proof (cases r)
  case GET_root
  with assms show ?thesis by simp
next
  case GET_notes
  with assms show ?thesis by (simp add: handle_GET_notes del: handle.simps)
next
  case (POST_notes now payload)
  with assms show ?thesis by (auto simp: handle_POST_notes simp del: handle.simps)
next
  case (DELETE_notes nid)
  with assms show ?thesis by (simp add: handle_DELETE del: handle.simps)
next
  case (POST_summary now payload)
  with assms show ?thesis
    by (auto simp: handle_POST_summary summarize_body_def Let_def simp del: handle.simps
        split: if_splits option.splits sum.splits)
qed

text \<open>
  No note of a run from the empty store has an empty id, whatever the clock: an id that
  is present in the store is not empty.
\<close>

lemma serve_ids_not_Nil:
  "\<forall>n\<in>set (NOTES s). note_id n \<noteq> [] \<Longrightarrow> \<forall>n\<in>set (NOTES (serve llm rs s)). note_id n \<noteq> []"
proof (induction rs arbitrary: s)
  case Nil
  then show ?case by simp
next
  case (Cons r rs)
  have "\<forall>n\<in>set (NOTES (snd (handle llm r s))). note_id n \<noteq> []"
    using Cons.prems handle_new_ids [of _ llm r s] by (metis str_not_Nil)
  then show ?case using Cons.IH by simp
qed

lemma reachable_ids_not_Nil:
  "nid \<in> note_id ` set (NOTES (serve llm rs initial)) \<Longrightarrow> nid \<noteq> []"
  using serve_ids_not_Nil [of initial llm rs] by (auto simp: initial_def)

text \<open>
  Claim C4. For every request to \<^verbatim>\<open>POST /api/notes/summary\<close> with a non-empty \<open>userQuery\<close>,
  a \<open>notesId\<close> that is present in the store (\<open>found\<close> is the first note with that id) and
  the model name \<^verbatim>\<open>"openai"\<close> or \<^verbatim>\<open>"gemini"\<close>: if the adapter selected by the model name
  raises an exception on the text of the note and the query, the response is 500 with the
  body \<^verbatim>\<open>{"error": "Failed to summarize note"}\<close> and the state is unchanged: no summary
  note is appended. (An id that is present in a store reached from the empty one is never
  empty, by \<open>reachable_ids_not_Nil\<close>.)
\<close>

theorem summarize_adapter_raises:
  assumes "userQuery p \<noteq> []" and "notesId p \<noteq> []"
    and "find_note (notesId p) (NOTES s) = Some found"
    and "(modelName p = ''openai''
            \<and> summarize_with_openai llm (note_text found) (userQuery p) = Inl e)
       \<or> (modelName p = ''gemini''
            \<and> summarize_with_gemini llm (note_text found) (userQuery p) = Inl e)"
  shows "handle llm (POST_summary now p) s
    = (\<lparr>status_code = 500, content = ErrorBody ''Failed to summarize note''\<rparr>, s)"
  using assms
  by (auto simp: handle_POST_summary summarize_body_def Let_def falsy_def simp del: handle.simps)

text \<open>The first provider is down: 500, and the store still holds its one note.\<close>

theorem summarize_adapter_raises_witness:
  "find_note ''1700000000000'' (NOTES one_note)
     = Some \<lparr>note_id = ''1700000000000'', note_text = ''hello''\<rparr>
   \<and> summarize_with_openai demo_llm ''hello'' ''shorter'' = Inl (Exception ''provider down'')
   \<and> handle demo_llm
       (POST_summary 1700000000005
          \<lparr>userQuery = ''shorter'', notesId = ''1700000000000'', modelName = ''openai''\<rparr>)
       one_note
     = (\<lparr>status_code = 500, content = ErrorBody ''Failed to summarize note''\<rparr>, one_note)"
  using summarize_adapter_raises
    [where p = "\<lparr>userQuery = ''shorter'', notesId = ''1700000000000'', modelName = ''openai''\<rparr>"
       and s = one_note and llm = demo_llm and e = "Exception ''provider down''"
       and found = "\<lparr>note_id = ''1700000000000'', note_text = ''hello''\<rparr>"
       and now = 1700000000005]
  by (simp add: one_note_eq find_note_def demo_llm_def)

text \<open>
  Claim C5. For every request to \<^verbatim>\<open>POST /api/notes/summary\<close> with a non-empty \<open>userQuery\<close>,
  a \<open>notesId\<close> that is present in the store (\<open>found\<close> is the first note with that id) and
  the model name \<^verbatim>\<open>"openai"\<close> or \<^verbatim>\<open>"gemini"\<close>: if the adapter selected by the model name
  returns \<^verbatim>\<open>None\<close> or the empty string, a new note with the text
  \<^verbatim>\<open>"No summary generated"\<close> (and the clock reading as its id) is appended to the store, and
  the response is 200 with that same string as \<open>summary\<close>.
\<close>

theorem summarize_empty_result:
  assumes "userQuery p \<noteq> []" and "notesId p \<noteq> []"
    and "find_note (notesId p) (NOTES s) = Some found"
    and "(modelName p = ''openai''
            \<and> summarize_with_openai llm (note_text found) (userQuery p) = Inr r)
       \<or> (modelName p = ''gemini''
            \<and> summarize_with_gemini llm (note_text found) (userQuery p) = Inr r)"
    and "r = None \<or> r = Some []"
  shows "handle llm (POST_summary now p) s
    = (\<lparr>status_code = 200, content = SummaryBody ''No summary generated''\<rparr>,
       s\<lparr>NOTES := NOTES s @ [\<lparr>note_id = str now, note_text = ''No summary generated''\<rparr>]\<rparr>)"
  using assms
  by (auto simp: handle_POST_summary summarize_body_def Let_def falsy_def simp del: handle.simps)

text \<open>The second provider returns the empty string: the fallback text is stored and returned.\<close>

theorem summarize_empty_result_witness:
  "find_note ''1700000000000'' (NOTES one_note)
     = Some \<lparr>note_id = ''1700000000000'', note_text = ''hello''\<rparr>
   \<and> summarize_with_gemini demo_llm ''hello'' ''shorter'' = Inr (Some [])
   \<and> handle demo_llm
       (POST_summary 1700000000005
          \<lparr>userQuery = ''shorter'', notesId = ''1700000000000'', modelName = ''gemini''\<rparr>)
       one_note
     = (\<lparr>status_code = 200, content = SummaryBody ''No summary generated''\<rparr>,
        \<lparr>NOTES = [\<lparr>note_id = ''1700000000000'', note_text = ''hello''\<rparr>,
                  \<lparr>note_id = ''1700000000005'', note_text = ''No summary generated''\<rparr>],
         stdout = []\<rparr>)"
  using summarize_empty_result
    [where p = "\<lparr>userQuery = ''shorter'', notesId = ''1700000000000'', modelName = ''gemini''\<rparr>"
       and s = one_note and llm = demo_llm and r = "Some []"
       and found = "\<lparr>note_id = ''1700000000000'', note_text = ''hello''\<rparr>"
       and now = 1700000000005]
  by (simp add: one_note_eq find_note_def demo_llm_def str_def str_nat.simps digit_char_def)

section \<open>Listing the notes\<close>

lemma serve_creates:
  "serve llm (map (\<lambda>(t, b). POST_notes t \<lparr>payload_text = b\<rparr>) cs) s
     = s\<lparr>NOTES := NOTES s @ map (\<lambda>(t, b). \<lparr>note_id = str t, note_text = b\<rparr>) cs\<rparr>"
proof (induction cs arbitrary: s)
  case Nil
  show ?case by simp
next
  case (Cons c cs)
  obtain t b where c: "c = (t, b)" by (cases c)
  show ?case
    by (simp add: c Cons.IH handle_POST_notes del: handle.simps)
qed

text \<open>
  Claim C7. For every sequence \<open>cs\<close> of creations (each a clock reading in milliseconds, not
  before the epoch, and a text) handled from the empty store, \<^verbatim>\<open>GET /api/notes\<close> answers
  200 with the created notes in the order of creation, the id of each being \<open>str\<close> of the
  clock reading of its creation, and each id is an all-digit string.
\<close>

theorem list_notes_creation_order:
  assumes "\<forall>c\<in>set cs. 0 \<le> fst c"
  shows "fst (handle llm GET_notes
            (serve llm (map (\<lambda>(t, b). POST_notes t \<lparr>payload_text = b\<rparr>) cs) initial))
      = \<lparr>status_code = 200,
         content = NotesBody (map (\<lambda>(t, b). \<lparr>note_id = str t, note_text = b\<rparr>) cs)\<rparr>
    \<and> (\<forall>n\<in>set (map (\<lambda>(t, b). \<lparr>note_id = str t, note_text = b\<rparr>) cs). isdigit (note_id n))"
proof -
  have "isdigit (note_id n)"
    if "n \<in> set (map (\<lambda>(t, b). \<lparr>note_id = str t, note_text = b\<rparr>) cs)" for n
  proof -
    from that obtain t b where "(t, b) \<in> set cs" and n: "n = \<lparr>note_id = str t, note_text = b\<rparr>"
      by auto
    with assms have "0 \<le> t" by auto
    then show ?thesis by (simp add: n isdigit_str)
  qed
  then show ?thesis
    by (simp add: serve_creates handle_GET_notes initial_def del: handle.simps)
qed

text \<open>Two creations, seven milliseconds apart, then the list.\<close>

theorem list_notes_creation_order_witness:
  "(0::int) \<le> 1700000000000 \<and> (0::int) \<le> 1700000000007
   \<and> fst (handle demo_llm GET_notes
          (serve demo_llm [POST_notes 1700000000000 \<lparr>payload_text = ''a''\<rparr>,
                           POST_notes 1700000000007 \<lparr>payload_text = ''b''\<rparr>] initial))
     = \<lparr>status_code = 200,
        content = NotesBody [\<lparr>note_id = ''1700000000000'', note_text = ''a''\<rparr>,
                             \<lparr>note_id = ''1700000000007'', note_text = ''b''\<rparr>]\<rparr>
   \<and> isdigit ''1700000000000'' \<and> isdigit ''1700000000007''"
proof -
  have h: "\<forall>c\<in>set [(1700000000000, ''a''), (1700000000007, ''b'')]. (0::int) \<le> fst c"
    by simp
  show ?thesis
    using h list_notes_creation_order [OF h, of demo_llm]
    by (simp add: str_def str_nat.simps digit_char_def)
qed

text \<open>
  Claim C8. For every state, \<^verbatim>\<open>GET /api/notes\<close> answers 200 with the notes of the store
  in their order and leaves the store as it was, so a second call right after the first
  gives the same response; and the response is the same in any two states with the same
  store (the call only adds to what was printed).
\<close>

theorem list_notes_twice:
  "fst (handle llm GET_notes s) = \<lparr>status_code = 200, content = NotesBody (NOTES s)\<rparr>
   \<and> NOTES (snd (handle llm GET_notes s)) = NOTES s
   \<and> fst (handle llm GET_notes (snd (handle llm GET_notes s))) = fst (handle llm GET_notes s)
   \<and> (NOTES s' = NOTES s \<longrightarrow> fst (handle llm GET_notes s') = fst (handle llm GET_notes s))"
  by (simp add: handle_GET_notes del: handle.simps)

text \<open>Listing a store of one note twice.\<close>

theorem list_notes_twice_witness:
  "NOTES (snd (handle demo_llm GET_notes one_note)) = NOTES one_note
   \<and> fst (handle demo_llm GET_notes (snd (handle demo_llm GET_notes one_note)))
     = fst (handle demo_llm GET_notes one_note)
   \<and> fst (handle demo_llm GET_notes one_note)
     = \<lparr>status_code = 200,
        content = NotesBody [\<lparr>note_id = ''1700000000000'', note_text = ''hello''\<rparr>]\<rparr>"
  using list_notes_twice [of demo_llm one_note "snd (handle demo_llm GET_notes one_note)"]
  by (simp add: one_note_eq)

section \<open>The invariant of the ids\<close>

lemma handle_digit_ids:
  assumes "clock_ok r" and "digit_ids s"
  shows "digit_ids (snd (handle llm r s))"
  unfolding digit_ids_def list_all_iff
proof
  fix n assume "n \<in> set (NOTES (snd (handle llm r s)))"
  then consider "n \<in> set (NOTES s)"
    | now p where "r = POST_notes now p" "note_id n = str now"
    | now p where "r = POST_summary now p" "note_id n = str now"
    using handle_new_ids by blast
  then show "isdigit (note_id n)"
  proof cases
    case 1
    with assms(2) show ?thesis by (simp add: digit_ids_def list_all_iff)
  next
    case 2
    with assms(1) show ?thesis by (simp add: isdigit_str)
  next
    case 3
    with assms(1) show ?thesis by (simp add: isdigit_str)
  qed
qed

lemma serve_digit_ids:
  "\<forall>r\<in>set rs. clock_ok r \<Longrightarrow> digit_ids s \<Longrightarrow> digit_ids (serve llm rs s)"
  by (induction rs arbitrary: s) (simp_all add: handle_digit_ids del: handle.simps)

text \<open>
  Claim C10. With clock readings that are not before the epoch, every request keeps the
  invariant that the id of every note of the store is an all-digit string: a create and a
  summary append a note with \<open>str\<close> of the clock reading as its id, a delete and a list
  add none. So after every prefix of a run from the empty store, that is at every moment
  of the run, every note of the store has an all-digit id.
\<close>

theorem all_digit_ids_invariant:
  "(clock_ok r \<and> digit_ids s \<longrightarrow> digit_ids (snd (handle llm r s)))
   \<and> ((\<forall>r\<in>set rs. clock_ok r) \<longrightarrow> digit_ids (serve llm (take k rs) initial))"
proof -
  have "digit_ids initial" by (simp add: digit_ids_def initial_def)
  moreover have "\<forall>r\<in>set (take k rs). clock_ok r" if "\<forall>r\<in>set rs. clock_ok r"
    using that by (meson in_set_takeD)
  ultimately show ?thesis
    using handle_digit_ids serve_digit_ids by blast
qed

text \<open>
  A run with a create, a summary, a list, a delete and a probe: the invariant holds after
  the first two requests, and a further create keeps it.
\<close>

theorem all_digit_ids_invariant_witness:
  "list_all clock_ok demo_run
   \<and> digit_ids (serve demo_llm (take 2 demo_run) initial)
   \<and> NOTES (serve demo_llm (take 2 demo_run) initial)
       = [\<lparr>note_id = ''1700000000000'', note_text = ''hello''\<rparr>,
          \<lparr>note_id = ''1700000000005'', note_text = ''No summary generated''\<rparr>]
   \<and> clock_ok (POST_notes 1700000000009 \<lparr>payload_text = ''later''\<rparr>)
   \<and> digit_ids (snd (handle demo_llm (POST_notes 1700000000009 \<lparr>payload_text = ''later''\<rparr>)
                       (serve demo_llm (take 2 demo_run) initial)))"
proof -
  have h: "\<forall>r\<in>set demo_run. clock_ok r"
    by (simp add: demo_run_def)
  have run: "serve demo_llm (take 2 demo_run) initial
     = \<lparr>NOTES = [\<lparr>note_id = ''1700000000000'', note_text = ''hello''\<rparr>,
                 \<lparr>note_id = ''1700000000005'', note_text = ''No summary generated''\<rparr>],
        stdout = []\<rparr>"
    by (simp add: demo_run_def initial_def create_note_def summarize_note_def summarize_body_def
        Let_def falsy_def find_note_def demo_llm_def str_def str_nat.simps digit_char_def)
  have inv: "digit_ids (serve demo_llm (take 2 demo_run) initial)"
    using h all_digit_ids_invariant [of "POST_notes 1700000000009 \<lparr>payload_text = ''later''\<rparr>"
        "serve demo_llm (take 2 demo_run) initial" demo_llm demo_run 2]
    by blast
  have step: "digit_ids (snd (handle demo_llm (POST_notes 1700000000009 \<lparr>payload_text = ''later''\<rparr>)
                       (serve demo_llm (take 2 demo_run) initial)))"
    using inv all_digit_ids_invariant [of "POST_notes 1700000000009 \<lparr>payload_text = ''later''\<rparr>"
        "serve demo_llm (take 2 demo_run) initial" demo_llm demo_run 2]
    by simp
  show ?thesis using h inv step by (simp add: run list_all_iff)
qed

end
